theory Spec2Isabelle
  imports Main "HOL-Library.Word"
begin

section \<open>NetworkFeature: options and the published connection pool\<close>

text \<open>
  The option fields of \<^verbatim>\<open>NetworkFeature\<close> are \<^verbatim>\<open>uint64_t\<close>. The feature owns
  the pool through \<^verbatim>\<open>_pool\<close> (a \<^verbatim>\<open>unique_ptr\<close>) and publishes a raw pointer to it in
  the static atomic \<^verbatim>\<open>_poolPtr\<close>. Pool objects live in a store indexed by address, so
  that the two pointers can alias the same object.
\<close>

type_synonym uint64 = "64 word"
type_synonym pool_addr = nat

record Config =
  cfg_numIOThreads :: uint64
  cfg_maxOpenConnections :: uint64
  cfg_connectionTtlMilli :: uint64
  cfg_verifyHosts :: bool

record ConnectionPool =
  config :: Config
  isShutdown :: bool

record NetworkFeature =
  numIOThreads :: uint64
  maxOpenConnections :: uint64
  connectionTtlMilli :: uint64
  verifyHosts :: bool
  pool_owner :: "pool_addr option"
  poolPtr :: "pool_addr option"
  pools :: "pool_addr \<Rightarrow> ConnectionPool option"

text \<open>The constructor: \<^verbatim>\<open>_numIOThreads(1), _maxOpenConnections(128),
  _connectionTtlMilli(5 * 60 * 1000), _verifyHosts(false)\<close>; no pool yet.\<close>

definition NetworkFeature_init :: NetworkFeature where
  "NetworkFeature_init =
     \<lparr> numIOThreads = 1, maxOpenConnections = 128, connectionTtlMilli = 5 * 60 * 1000,
       verifyHosts = False, pool_owner = None, poolPtr = None, pools = (\<lambda>_. None) \<rparr>"

text \<open>\<^verbatim>\<open>NetworkFeature::validateOptions\<close>.\<close>

definition validateOptions :: "NetworkFeature \<Rightarrow> NetworkFeature" where
  "validateOptions nf =
     (let nf1 = nf\<lparr> numIOThreads := min 1 (max 8 (numIOThreads nf)) \<rparr>;
          nf2 = (if maxOpenConnections nf1 < 8 then nf1\<lparr> maxOpenConnections := 8 \<rparr> else nf1);
          nf3 = (if connectionTtlMilli nf2 < 10000 then nf2\<lparr> connectionTtlMilli := 10000 \<rparr> else nf2)
      in nf3)"

text \<open>\<^verbatim>\<open>NetworkFeature::prepare\<close>: builds the pool from the options at a fresh address
  \<open>a\<close> and publishes the address.\<close>

definition prepare :: "pool_addr \<Rightarrow> NetworkFeature \<Rightarrow> NetworkFeature" where
  "prepare a nf =
     (let cfg = \<lparr> cfg_numIOThreads = numIOThreads nf,
                  cfg_maxOpenConnections = maxOpenConnections nf,
                  cfg_connectionTtlMilli = connectionTtlMilli nf,
                  cfg_verifyHosts = verifyHosts nf \<rparr>;
          nf1 = nf\<lparr> pools := (pools nf)(a \<mapsto> \<lparr> config = cfg, isShutdown = False \<rparr>),
                    pool_owner := Some a \<rparr>
      in nf1\<lparr> poolPtr := pool_owner nf1 \<rparr>)"

text \<open>\<^verbatim>\<open>NetworkFeature::beginShutdown\<close> is two statements. The first stores
  \<^verbatim>\<open>nullptr\<close> into \<^verbatim>\<open>_poolPtr\<close>; the second calls \<^verbatim>\<open>_pool->shutdown()\<close> when the
  feature owns a pool. They are kept apart so that the state between them can be
  observed.\<close>

definition beginShutdown_publish :: "NetworkFeature \<Rightarrow> NetworkFeature" where
  "beginShutdown_publish nf = nf\<lparr> poolPtr := None \<rparr>"

definition beginShutdown_teardown :: "NetworkFeature \<Rightarrow> NetworkFeature" where
  "beginShutdown_teardown nf =
     (case pool_owner nf of
        None \<Rightarrow> nf
      | Some a \<Rightarrow>
          (case pools nf a of
             None \<Rightarrow> nf
           | Some p \<Rightarrow> nf\<lparr> pools := (pools nf)(a \<mapsto> p\<lparr> isShutdown := True \<rparr>) \<rparr>))"

definition beginShutdown :: "NetworkFeature \<Rightarrow> NetworkFeature" where
  "beginShutdown nf = beginShutdown_teardown (beginShutdown_publish nf)"

text \<open>Modelled from the spec: \<^verbatim>\<open>NetworkFeature::pool()\<close> is declared in
  \<^verbatim>\<open>NetworkFeature.h\<close>, which is not among the sources; it reads the published pool
  pointer.\<close>

definition NetworkFeature_pool :: "NetworkFeature \<Rightarrow> pool_addr option" where
  "NetworkFeature_pool nf = poolPtr nf"

text \<open>The states of the feature that a dispatch on another thread can observe while
  \<^verbatim>\<open>beginShutdown\<close> runs, in program order: before its first statement, between its two
  statements, and after its second.\<close>

definition beginShutdown_states :: "NetworkFeature \<Rightarrow> NetworkFeature list" where
  "beginShutdown_states nf =
     [nf, beginShutdown_publish nf, beginShutdown_teardown (beginShutdown_publish nf)]"

text \<open>A dispatch that reads the published pointer in state \<open>nf\<close> would lease from a pool
  that has already been shut down.\<close>

definition leasesShutdownPool :: "NetworkFeature \<Rightarrow> bool" where
  "leasesShutdownPool nf =
     (case NetworkFeature_pool nf of
        None \<Rightarrow> False
      | Some a \<Rightarrow> (case pools nf a of None \<Rightarrow> False | Some p \<Rightarrow> isShutdown p))"

section \<open>Clock and durations\<close>

text \<open>
  \<^verbatim>\<open>std::chrono::steady_clock\<close> time points and durations are counted in clock ticks;
  a tick is one nanosecond. Tick counts are unbounded integers here: the 64-bit counter
  of the clock does not wrap within the lifetime of a process. The caller's
  \<^verbatim>\<open>Timeout\<close> is taken in ticks as well.
\<close>

type_synonym time_point = int
type_synonym duration = int

definition milliseconds :: "int \<Rightarrow> duration" where
  "milliseconds n = n * 1000000"

definition seconds :: "int \<Rightarrow> duration" where
  "seconds n = n * 1000000000"

text \<open>\<^verbatim>\<open>std::chrono::duration_cast<std::chrono::milliseconds>\<close>: the count of whole
  milliseconds, truncated towards zero.\<close>

definition duration_cast_ms :: "duration \<Rightarrow> int" where
  "duration_cast_ms d = (if 0 \<le> d then d div 1000000 else - ((- d) div 1000000))"

section \<open>Transport types\<close>

type_synonym DestinationId = string
type_synonym EndpointSpec = string
type_synonym Headers = "(string \<times> string) list"
type_synonym buffer = "8 word list"
type_synonym StatusCode = nat

datatype RestVerb = VerbDelete | VerbGet | VerbPost | VerbPut | VerbHead | VerbPatch | VerbOptions

text \<open>The transport's error conditions. The code names four of them; every other
  condition is \<open>OtherError\<close> with its number. \<^verbatim>\<open>fuerte::Error\<close> is the integer form of the
  same value, so \<^verbatim>\<open>intToError\<close> and \<^verbatim>\<open>errorToInt\<close> are the identity here.\<close>

datatype ErrorCondition = NoError | CouldNotConnect | Timeout | Canceled | OtherError nat

definition StatusOK :: StatusCode where "StatusOK = 200"
definition StatusCreated :: StatusCode where "StatusCreated = 201"
definition StatusAccepted :: StatusCode where "StatusAccepted = 202"
definition StatusNoContent :: StatusCode where "StatusNoContent = 204"
definition StatusNotFound :: StatusCode where "StatusNotFound = 404"

definition TRI_ERROR_ARANGO_DATA_SOURCE_NOT_FOUND :: int where
  "TRI_ERROR_ARANGO_DATA_SOURCE_NOT_FOUND = 1203"

text \<open>A transport response. \<open>bodyErrorCode\<close> is the number that
  \<^verbatim>\<open>network::errorCodeFromBody(res->slice())\<close> reads out of the body; that helper is
  defined outside these sources, so its result is part of the data.\<close>

record FuerteResponse =
  statusCode :: StatusCode
  bodyErrorCode :: int
  responseBody :: buffer

text \<open>\<^verbatim>\<open>network::Response{destination, error, response}\<close>.\<close>

record Response =
  destination :: DestinationId
  error :: ErrorCondition
  response :: "FuerteResponse option"

text \<open>The request handed to the connection: the fields \<^verbatim>\<open>prepareRequest\<close> sets from its
  arguments. The metadata it derives from the hybrid logical clock, the server role and
  the database prefix of the path comes from code outside these sources and is left
  out.\<close>

record WireRequest =
  req_type :: RestVerb
  req_path :: string
  req_payload :: buffer
  req_timeout_ms :: int
  req_headers :: Headers

text \<open>\<^verbatim>\<open>std::forward<T>(payload)\<close> into \<^verbatim>\<open>createRequest\<close>: an lvalue argument is
  copied and its source keeps its bytes, an rvalue is moved from and its source is left
  empty. The result is the buffer of the request and the source afterwards.\<close>

datatype value_category = LValue | RValue

definition forward_buffer :: "value_category \<Rightarrow> buffer \<Rightarrow> buffer \<times> buffer" where
  "forward_buffer c b = (case c of LValue \<Rightarrow> (b, b) | RValue \<Rightarrow> (b, []))"

definition prepareRequest ::
  "RestVerb \<Rightarrow> string \<Rightarrow> value_category \<Rightarrow> buffer \<Rightarrow> duration \<Rightarrow> Headers
     \<Rightarrow> WireRequest \<times> buffer" where
  "prepareRequest type path c payload timeout headers =
     (let (body, src) = forward_buffer c payload
      in (\<lparr> req_type = type, req_path = path, req_payload = body,
            req_timeout_ms = duration_cast_ms timeout, req_headers = headers \<rparr>, src))"

section \<open>Observable actions\<close>

text \<open>What a dispatch does to its collaborators, in order: resolving the destination,
  leasing a connection from the pool, handing a request to the connection, arming the
  retry timer, and invoking the completion callback.\<close>

datatype action =
    Resolve DestinationId
  | Lease pool_addr EndpointSpec
  | Send WireRequest
  | ArmTimer time_point
  | Callback Response

fun callbacks :: "action list \<Rightarrow> Response list" where
  "callbacks [] = []"
| "callbacks (Callback r # as) = r # callbacks as"
| "callbacks (_ # as) = callbacks as"

fun sends :: "action list \<Rightarrow> WireRequest list" where
  "sends [] = []"
| "sends (Send q # as) = q # sends as"
| "sends (_ # as) = sends as"

fun leases :: "action list \<Rightarrow> (pool_addr \<times> EndpointSpec) list" where
  "leases [] = []"
| "leases (Lease p e # as) = (p, e) # leases as"
| "leases (_ # as) = leases as"

fun resolves :: "action list \<Rightarrow> DestinationId list" where
  "resolves [] = []"
| "resolves (Resolve d # as) = d # resolves as"
| "resolves (_ # as) = resolves as"

fun timers :: "action list \<Rightarrow> time_point list" where
  "timers [] = []"
| "timers (ArmTimer t # as) = t # timers as"
| "timers (_ # as) = timers as"

section \<open>The single-attempt entry point\<close>

text \<open>
  \<^verbatim>\<open>sendRequest\<close> (the free function). Its surroundings are inputs: \<open>pool\<close> is what
  \<^verbatim>\<open>NetworkFeature::pool()\<close> returns and \<open>endpoint\<close> is what
  \<^verbatim>\<open>resolveDestination\<close> yields (\<open>None\<close> when its result is not ok). The future is
  either ready at once or pending on the send. \<open>None\<close> is the failed
  \<^verbatim>\<open>TRI_ASSERT(!endpoint.empty())\<close>.
\<close>

datatype future = FutureReady Response | FuturePending

definition sendRequest ::
  "DestinationId \<Rightarrow> RestVerb \<Rightarrow> string \<Rightarrow> buffer \<Rightarrow> duration \<Rightarrow> Headers
     \<Rightarrow> pool_addr option \<Rightarrow> EndpointSpec option \<Rightarrow> (action list \<times> future) option" where
  "sendRequest dest type path payload timeout headers pool endpoint =
     (case pool of
        None \<Rightarrow>
          Some ([], FutureReady \<lparr> destination = dest, error = Canceled, response = None \<rparr>)
      | Some p \<Rightarrow>
          (case endpoint of
             None \<Rightarrow>
               Some ([Resolve dest],
                     FutureReady \<lparr> destination = dest, error = Canceled, response = None \<rparr>)
           | Some ep \<Rightarrow>
               if ep = [] then None
               else
                 (let (req, src) = prepareRequest type path RValue payload timeout headers
                  in Some ([Resolve dest, Lease p ep, Send req], FuturePending))))"

text \<open>The completion lambda of the send: \<^verbatim>\<open>promise->setValue(network::Response{destination,
  err, std::move(res)})\<close>.\<close>

definition sendRequest_completion ::
  "DestinationId \<Rightarrow> ErrorCondition \<Rightarrow> FuerteResponse option \<Rightarrow> Response" where
  "sendRequest_completion dest err res = \<lparr> destination = dest, error = err, response = res \<rparr>"

text \<open>The value the caller's future ends up with, once the transport has completed the
  send with \<open>err\<close> and \<open>res\<close>.\<close>

definition sendRequest_result ::
  "DestinationId \<Rightarrow> RestVerb \<Rightarrow> string \<Rightarrow> buffer \<Rightarrow> duration \<Rightarrow> Headers
     \<Rightarrow> pool_addr option \<Rightarrow> EndpointSpec option
     \<Rightarrow> ErrorCondition \<Rightarrow> FuerteResponse option \<Rightarrow> Response option" where
  "sendRequest_result dest type path payload timeout headers pool endpoint err res =
     (case sendRequest dest type path payload timeout headers pool endpoint of
        None \<Rightarrow> None
      | Some (_, FutureReady r) \<Rightarrow> Some r
      | Some (_, FuturePending) \<Rightarrow> Some (sendRequest_completion dest err res))"

section \<open>The retrying request: \<^verbatim>\<open>RequestsState\<close>\<close>

text \<open>The members of \<^verbatim>\<open>RequestsState\<close>. The callback \<^verbatim>\<open>_cb\<close> is not a field: its
  invocations are the \<open>Callback\<close> actions. \<open>rs_timer\<close> is \<open>None\<close> while \<^verbatim>\<open>_timer\<close> is
  null and holds the expiry of the timer once it has been created.\<close>

record RequestsState =
  rs_destination :: DestinationId
  rs_type :: RestVerb
  rs_path :: string
  rs_payload :: buffer
  rs_headers :: Headers
  rs_startTime :: time_point
  rs_endTime :: time_point
  rs_retryOnCollNotFound :: bool
  rs_timer :: "time_point option"

text \<open>The constructor; \<open>now\<close> is the clock reading that initialises \<^verbatim>\<open>_startTime\<close>.\<close>

definition RequestsState_new ::
  "DestinationId \<Rightarrow> RestVerb \<Rightarrow> string \<Rightarrow> buffer \<Rightarrow> duration \<Rightarrow> Headers \<Rightarrow> bool
     \<Rightarrow> time_point \<Rightarrow> RequestsState" where
  "RequestsState_new dest type path payload timeout headers retryNotFound now =
     \<lparr> rs_destination = dest, rs_type = type, rs_path = path, rs_payload = payload,
       rs_headers = headers, rs_startTime = now, rs_endTime = now + timeout,
       rs_retryOnCollNotFound = retryNotFound, rs_timer = None \<rparr>"

text \<open>Where a request stands after a step: a send is in flight, the retry timer is
  armed, the callback has been invoked (\<open>Terminated\<close>), the timer's wait ended with an
  error code and its handler returned without doing anything (\<open>Dropped\<close>), or an
  assertion failed (\<open>AssertFailed\<close>).\<close>

datatype progress = AwaitTransport | AwaitTimer | Terminated | Dropped | AssertFailed

text \<open>What one run of \<^verbatim>\<open>RequestsState::sendRequest\<close> observes: the clock, 
  \<^verbatim>\<open>ApplicationServer::isStopping()\<close>, the endpoint \<^verbatim>\<open>resolveDestination\<close> yields
  (\<open>None\<close> when its result is not ok) and \<^verbatim>\<open>NetworkFeature::pool()\<close>.\<close>

record SendEnv =
  env_now :: time_point
  env_isStopping :: bool
  env_endpoint :: "EndpointSpec option"
  env_pool :: "pool_addr option"

definition RequestsState_sendRequest ::
  "RequestsState \<Rightarrow> SendEnv \<Rightarrow> RequestsState \<times> action list \<times> progress" where
  "RequestsState_sendRequest rs env =
     (if env_now env > rs_endTime rs \<or> env_isStopping env then
        (rs, [Callback \<lparr> destination = rs_destination rs, error = Timeout, response = None \<rparr>],
         Terminated)
      else
        (case env_endpoint env of
           None \<Rightarrow>
             (rs, [Resolve (rs_destination rs),
                   Callback \<lparr> destination = rs_destination rs, error = Canceled,
                              response = None \<rparr>],
              Terminated)
         | Some endpoint \<Rightarrow>
             (case env_pool env of
                None \<Rightarrow>
                  (rs, [Resolve (rs_destination rs),
                        Callback \<lparr> destination = rs_destination rs, error = Canceled,
                                   response = None \<rparr>],
                   Terminated)
              | Some pool \<Rightarrow>
                  (let timeout = duration_cast_ms (rs_endTime rs - rs_startTime rs)
                   in if \<not> timeout > 0 then (rs, [Resolve (rs_destination rs)], AssertFailed)
                      else
                        (let (req, src) =
                               prepareRequest (rs_type rs) (rs_path rs) LValue (rs_payload rs)
                                 (milliseconds timeout) (rs_headers rs)
                         in (rs\<lparr> rs_payload := src \<rparr>,
                             [Resolve (rs_destination rs), Lease pool endpoint, Send req],
                             AwaitTransport))))))"

text \<open>The clamp on \<^verbatim>\<open>tryAgainAfter\<close>.\<close>

definition clampTryAgainAfter :: "duration \<Rightarrow> duration" where
  "clampTryAgainAfter t =
     (if t < milliseconds 200 then milliseconds 200
      else if t > seconds 10 then seconds 10
      else t)"

text \<open>The body of the \<^verbatim>\<open>CouldNotConnect\<close>/\<^verbatim>\<open>Timeout\<close> case of
  \<^verbatim>\<open>handleResponse\<close>, which the retryable not-found falls through to. \<open>now1\<close> and
  \<open>now2\<close> are its two clock readings, in order.\<close>

definition tryAgainLater ::
  "RequestsState \<Rightarrow> ErrorCondition \<Rightarrow> FuerteResponse option \<Rightarrow> time_point \<Rightarrow> time_point
     \<Rightarrow> RequestsState \<times> action list \<times> progress" where
  "tryAgainLater rs err res now1 now2 =
     (let tryAgainAfter = clampTryAgainAfter (now1 - rs_startTime rs);
          dueTime = now2 + tryAgainAfter
      in if dueTime \<ge> rs_endTime rs then
           (rs, [Callback \<lparr> destination = rs_destination rs, error = err, response = res \<rparr>],
            Terminated)
         else (rs\<lparr> rs_timer := Some dueTime \<rparr>, [ArmTimer dueTime], AwaitTimer))"

text \<open>\<^verbatim>\<open>RequestsState::handleResponse\<close>. In the \<^verbatim>\<open>NoError\<close> case a null response
  fails \<^verbatim>\<open>TRI_ASSERT(res)\<close>.\<close>

definition handleResponse ::
  "RequestsState \<Rightarrow> ErrorCondition \<Rightarrow> FuerteResponse option \<Rightarrow> time_point \<Rightarrow> time_point
     \<Rightarrow> RequestsState \<times> action list \<times> progress" where
  "handleResponse rs err res now1 now2 =
     (case err of
        NoError \<Rightarrow>
          (case res of
             None \<Rightarrow> (rs, [], AssertFailed)
           | Some r \<Rightarrow>
               if statusCode r = StatusOK \<or> statusCode r = StatusCreated \<or>
                  statusCode r = StatusAccepted \<or> statusCode r = StatusNoContent then
                 (rs, [Callback \<lparr> destination = rs_destination rs, error = NoError,
                                   response = Some r \<rparr>],
                  Terminated)
               else if statusCode r = StatusNotFound \<and> rs_retryOnCollNotFound rs \<and>
                       TRI_ERROR_ARANGO_DATA_SOURCE_NOT_FOUND = bodyErrorCode r then
                 tryAgainLater rs err res now1 now2
               else
                 (rs, [Callback \<lparr> destination = rs_destination rs, error = Canceled,
                                   response = Some r \<rparr>],
                  Terminated))
      | CouldNotConnect \<Rightarrow> tryAgainLater rs err res now1 now2
      | Timeout \<Rightarrow> tryAgainLater rs err res now1 now2
      | _ \<Rightarrow>
          (rs, [Callback \<lparr> destination = rs_destination rs, error = err, response = res \<rparr>],
           Terminated))"

text \<open>The handler given to \<^verbatim>\<open>_timer->async_wait\<close>: \<open>ec\<close> is true when the wait ended
  with an error code (the timer was cancelled).\<close>

definition timerHandler ::
  "RequestsState \<Rightarrow> bool \<Rightarrow> SendEnv \<Rightarrow> RequestsState \<times> action list \<times> progress" where
  "timerHandler rs ec env =
     (if \<not> ec then RequestsState_sendRequest rs env else (rs, [], Dropped))"

subsection \<open>The lifecycle of one request\<close>

text \<open>A request with the actions it has performed so far. The transport and the timer
  drive it by events: the completion of the send in flight (with the two clock readings
  of \<^verbatim>\<open>handleResponse\<close>), or the end of the timer's wait (with what the re-entered
  \<^verbatim>\<open>sendRequest\<close> observes). An event that nothing is waiting for changes nothing.\<close>

record Machine =
  m_state :: RequestsState
  m_progress :: progress
  m_trace :: "action list"

datatype event =
    SendCompleted ErrorCondition "FuerteResponse option" time_point time_point
  | TimerCompleted bool SendEnv

definition advance :: "Machine \<Rightarrow> RequestsState \<times> action list \<times> progress \<Rightarrow> Machine" where
  "advance m r =
     (case r of (rs, acts, p) \<Rightarrow>
        \<lparr> m_state = rs, m_progress = p, m_trace = m_trace m @ acts \<rparr>)"

definition step :: "Machine \<Rightarrow> event \<Rightarrow> Machine" where
  "step m ev =
     (case ev of
        SendCompleted err res now1 now2 \<Rightarrow>
          if m_progress m = AwaitTransport
          then advance m (handleResponse (m_state m) err res now1 now2) else m
      | TimerCompleted ec env \<Rightarrow>
          if m_progress m = AwaitTimer
          then advance m (timerHandler (m_state m) ec env) else m)"

text \<open>\<^verbatim>\<open>sendRequestRetry\<close>: creates the state at clock reading \<open>now0\<close> and calls its
  \<^verbatim>\<open>sendRequest\<close>, which observes \<open>env0\<close>.\<close>

definition sendRequestRetry ::
  "DestinationId \<Rightarrow> RestVerb \<Rightarrow> string \<Rightarrow> buffer \<Rightarrow> duration \<Rightarrow> Headers \<Rightarrow> bool
     \<Rightarrow> time_point \<Rightarrow> SendEnv \<Rightarrow> Machine" where
  "sendRequestRetry dest type path payload timeout headers retryNotFound now0 env0 =
     (let rs = RequestsState_new dest type path payload timeout headers retryNotFound now0
      in advance \<lparr> m_state = rs, m_progress = AwaitTransport, m_trace = [] \<rparr>
           (RequestsState_sendRequest rs env0))"

text \<open>The request after the events \<open>evs\<close> have been delivered in order.\<close>

definition run :: "Machine \<Rightarrow> event list \<Rightarrow> Machine" where
  "run m evs = foldl step m evs"

subsection \<open>Environments that deliver what is awaited\<close>

text \<open>\<open>lastDue\<close> is the expiry the timer was last armed for, or the start time before the
  first retry. An event is \<open>expected\<close> when the request is waiting for it, a timer event
  is a timer that fired, and the clock reading taken for the due time in
  \<^verbatim>\<open>handleResponse\<close> is not before \<open>lastDue\<close> (the clock is steady and a timer does not
  fire early). \<open>potential\<close> bounds the number of expected events a request can still
  take.\<close>

definition lastDue :: "RequestsState \<Rightarrow> time_point" where
  "lastDue rs = (case rs_timer rs of None \<Rightarrow> rs_startTime rs | Some d \<Rightarrow> d)"

definition expected :: "Machine \<Rightarrow> event \<Rightarrow> bool" where
  "expected m ev =
     (case ev of
        SendCompleted err res now1 now2 \<Rightarrow>
          m_progress m = AwaitTransport \<and> lastDue (m_state m) \<le> now2
      | TimerCompleted ec env \<Rightarrow> m_progress m = AwaitTimer \<and> \<not> ec)"

fun expected_run :: "Machine \<Rightarrow> event list \<Rightarrow> bool" where
  "expected_run m [] = True"
| "expected_run m (ev # evs) = (expected m ev \<and> expected_run (step m ev) evs)"

definition retries_left :: "RequestsState \<Rightarrow> nat" where
  "retries_left rs = nat ((rs_endTime rs - lastDue rs) div milliseconds 200)"

definition potential :: "Machine \<Rightarrow> nat" where
  "potential m =
     (case m_progress m of
        AwaitTransport \<Rightarrow> 2 * retries_left (m_state m) + 2
      | AwaitTimer \<Rightarrow> 2 * retries_left (m_state m) + 3
      | _ \<Rightarrow> 0)"

section \<open>Example inputs\<close>

text \<open>A request of ten seconds to \<open>PRMR-1\<close> that retries on not-found, created at clock
  reading 0; an environment in which nothing is stopping and the destination resolves;
  and a response with a given status and body error number.\<close>

definition example_state :: RequestsState where
  "example_state =
     RequestsState_new ''PRMR-1'' VerbGet ''/_api/version'' [1, 2, 3] (seconds 10) [] True 0"

definition example_env :: "time_point \<Rightarrow> pool_addr option \<Rightarrow> SendEnv" where
  "example_env t pool =
     \<lparr> env_now = t, env_isStopping = False, env_endpoint = Some ''tcp://10.0.0.1:8529'',
       env_pool = pool \<rparr>"

definition example_response :: "StatusCode \<Rightarrow> int \<Rightarrow> FuerteResponse" where
  "example_response status errNum =
     \<lparr> statusCode = status, bodyErrorCode = errNum, responseBody = [] \<rparr>"

text \<open>The same request sent through \<^verbatim>\<open>sendRequestRetry\<close>; its first attempt starts one
  millisecond after its creation.\<close>

definition example_retry :: Machine where
  "example_retry =
     sendRequestRetry ''PRMR-1'' VerbGet ''/_api/version'' [1, 2, 3] (seconds 10) [] True 0
       (example_env (milliseconds 1) (Some 1))"

section \<open>Properties\<close>

subsection \<open>Auxiliary facts\<close>

lemma duration_cast_ms_milliseconds: "duration_cast_ms (milliseconds n) = n"
proof (cases "0 \<le> n")
  case True
  then show ?thesis by (simp add: duration_cast_ms_def milliseconds_def)
next
  case False
  have "- (n * 1000000) = (- n) * 1000000" by simp
  then have "(- (n * 1000000)) div 1000000 = - n" by (simp del: mult_minus_left)
  with False show ?thesis by (simp add: duration_cast_ms_def milliseconds_def)
qed

lemma clampTryAgainAfter_max_min:
  "clampTryAgainAfter t = max (milliseconds 200) (min (seconds 10) t)"
  by (simp add: clampTryAgainAfter_def milliseconds_def seconds_def max_def min_def)

lemma clampTryAgainAfter_bounds:
  "milliseconds 200 \<le> clampTryAgainAfter t \<and> clampTryAgainAfter t \<le> seconds 10"
  by (simp add: clampTryAgainAfter_def milliseconds_def seconds_def)

lemmas status_defs =
  StatusOK_def StatusCreated_def StatusAccepted_def StatusNoContent_def StatusNotFound_def

lemma sends_append: "sends (xs @ ys) = sends xs @ sends ys"
  by (induction xs rule: sends.induct) simp_all

lemma callbacks_append: "callbacks (xs @ ys) = callbacks xs @ callbacks ys"
  by (induction xs rule: callbacks.induct) simp_all

text \<open>What each handler can return.\<close>

lemma RequestsState_sendRequest_cases:
  assumes "RequestsState_sendRequest rs env = (rs', acts, p)"
  shows "rs' = rs \<and>
         ((p = Terminated \<and> length (callbacks acts) = 1 \<and> sends acts = []) \<or>
          (p = AssertFailed \<and> callbacks acts = [] \<and> sends acts = []) \<or>
          (p = AwaitTransport \<and> callbacks acts = [] \<and>
           (\<exists>q. sends acts = [q] \<and> req_payload q = rs_payload rs \<and>
                req_timeout_ms q = duration_cast_ms (rs_endTime rs - rs_startTime rs))))"
  using assms
  by (auto simp: RequestsState_sendRequest_def prepareRequest_def forward_buffer_def Let_def
        duration_cast_ms_milliseconds split: if_splits option.splits)

lemma tryAgainLater_cases:
  assumes "tryAgainLater rs err res now1 now2 = (rs', acts, p)"
  shows "rs_payload rs' = rs_payload rs \<and> rs_startTime rs' = rs_startTime rs \<and>
         rs_endTime rs' = rs_endTime rs \<and> sends acts = [] \<and>
         ((p = Terminated \<and> length (callbacks acts) = 1) \<or>
          (p = AwaitTimer \<and> callbacks acts = []))"
  using assms by (auto simp: tryAgainLater_def Let_def split: if_splits)

lemma handleResponse_cases:
  assumes "handleResponse rs err res now1 now2 = (rs', acts, p)"
  shows "rs_payload rs' = rs_payload rs \<and> rs_startTime rs' = rs_startTime rs \<and>
         rs_endTime rs' = rs_endTime rs \<and> sends acts = [] \<and>
         ((p = Terminated \<and> length (callbacks acts) = 1) \<or>
          (p = AwaitTimer \<and> callbacks acts = []) \<or>
          (p = AssertFailed \<and> callbacks acts = []))"
proof (cases "handleResponse rs err res now1 now2 = tryAgainLater rs err res now1 now2")
  case True
  with assms tryAgainLater_cases [of rs err res now1 now2 rs' acts p] show ?thesis by auto
next
  case False
  with assms show ?thesis
    by (auto simp: handleResponse_def split: ErrorCondition.splits option.splits if_splits)
qed

lemma timers_tryAgainLater:
  "tryAgainLater rs err res now1 now2 = (rs', acts, p) \<Longrightarrow>
     (timers acts = [] \<and> p = Terminated \<and>
        rs_endTime rs \<le> now2 + clampTryAgainAfter (now1 - rs_startTime rs) \<and>
        acts = [Callback \<lparr> destination = rs_destination rs, error = err, response = res \<rparr>]) \<or>
     (acts = [ArmTimer (now2 + clampTryAgainAfter (now1 - rs_startTime rs))] \<and> p = AwaitTimer \<and>
        now2 + clampTryAgainAfter (now1 - rs_startTime rs) < rs_endTime rs)"
  by (auto simp: tryAgainLater_def Let_def split: if_splits)

subsection \<open>Facts about a whole lifecycle\<close>

lemma step_cases:
  "step m ev = m \<or>
   (\<exists>err res now1 now2. m_progress m = AwaitTransport \<and>
       step m ev = advance m (handleResponse (m_state m) err res now1 now2)) \<or>
   (m_progress m = AwaitTimer \<and> step m ev = advance m (m_state m, [], Dropped)) \<or>
   (\<exists>env. m_progress m = AwaitTimer \<and>
       step m ev = advance m (RequestsState_sendRequest (m_state m) env))"
  by (cases ev) (auto simp: step_def timerHandler_def)

text \<open>The stored payload and the deadline never change, and every request handed to the
  transport carries the stored payload and the total timeout.\<close>

lemma step_sends:
  assumes "rs_payload (m_state m) = b"
    and "rs_endTime (m_state m) - rs_startTime (m_state m) = d"
    and "\<forall>q \<in> set (sends (m_trace m)). req_payload q = b \<and> req_timeout_ms q = duration_cast_ms d"
  shows "rs_payload (m_state (step m ev)) = b
       \<and> rs_endTime (m_state (step m ev)) - rs_startTime (m_state (step m ev)) = d
       \<and> (\<forall>q \<in> set (sends (m_trace (step m ev))).
             req_payload q = b \<and> req_timeout_ms q = duration_cast_ms d)"
proof -
  consider (idle) "step m ev = m"
    | (response) err res now1 now2 where "m_progress m = AwaitTransport"
        "step m ev = advance m (handleResponse (m_state m) err res now1 now2)"
    | (timer_cancelled) "m_progress m = AwaitTimer"
        "step m ev = advance m (m_state m, [], Dropped)"
    | (timer_fired) env where "m_progress m = AwaitTimer"
        "step m ev = advance m (RequestsState_sendRequest (m_state m) env)"
    using step_cases [of m ev] by blast
  then show ?thesis
  proof cases
  case idle
  with assms show ?thesis by simp
next
  case (response err res now1 now2)
  obtain rs' acts p where r: "handleResponse (m_state m) err res now1 now2 = (rs', acts, p)"
    by (cases "handleResponse (m_state m) err res now1 now2") auto
  from handleResponse_cases [OF r] assms show ?thesis
    by (simp add: response r advance_def sends_append)
next
  case timer_cancelled
  with assms show ?thesis by (simp add: advance_def)
next
  case (timer_fired env)
  obtain rs' acts p where r: "RequestsState_sendRequest (m_state m) env = (rs', acts, p)"
    by (cases "RequestsState_sendRequest (m_state m) env") auto
  from RequestsState_sendRequest_cases [OF r] assms show ?thesis
    by (auto simp: timer_fired r advance_def sends_append)
  qed
qed

lemma run_sends:
  assumes "rs_payload (m_state m) = b"
    and "rs_endTime (m_state m) - rs_startTime (m_state m) = d"
    and "\<forall>q \<in> set (sends (m_trace m)). req_payload q = b \<and> req_timeout_ms q = duration_cast_ms d"
  shows "rs_payload (m_state (run m evs)) = b
       \<and> (\<forall>q \<in> set (sends (m_trace (run m evs))).
             req_payload q = b \<and> req_timeout_ms q = duration_cast_ms d)"
  using assms
proof (induction evs arbitrary: m)
  case Nil
  then show ?case by (simp add: run_def)
next
  case (Cons ev evs)
  from step_sends [OF Cons.prems, of ev] Cons.IH [of "step m ev"]
  show ?case by (simp add: run_def)
qed

lemma sendRequestRetry_sends:
  "rs_payload (m_state (sendRequestRetry dest type path payload timeout headers rnf now0 env0)) = payload
   \<and> rs_endTime (m_state (sendRequestRetry dest type path payload timeout headers rnf now0 env0))
       - rs_startTime (m_state (sendRequestRetry dest type path payload timeout headers rnf now0 env0))
       = timeout
   \<and> (\<forall>q \<in> set (sends (m_trace (sendRequestRetry dest type path payload timeout headers rnf now0 env0))).
         req_payload q = payload \<and> req_timeout_ms q = duration_cast_ms timeout)"
proof -
  let ?rs = "RequestsState_new dest type path payload timeout headers rnf now0"
  obtain rs' acts p where r: "RequestsState_sendRequest ?rs env0 = (rs', acts, p)"
    by (cases "RequestsState_sendRequest ?rs env0") auto
  have m: "sendRequestRetry dest type path payload timeout headers rnf now0 env0
             = \<lparr> m_state = rs', m_progress = p, m_trace = acts \<rparr>"
    by (simp add: sendRequestRetry_def Let_def r advance_def)
  have f: "rs_payload ?rs = payload" "rs_endTime ?rs - rs_startTime ?rs = timeout"
    by (simp_all add: RequestsState_new_def)
  from RequestsState_sendRequest_cases [OF r] f show ?thesis
    unfolding m by auto
qed

text \<open>The callback has been invoked once when the request has terminated, and not at all
  otherwise; so it is never invoked twice.\<close>

lemma step_callbacks:
  assumes "length (callbacks (m_trace m)) = (if m_progress m = Terminated then 1 else 0)"
  shows "length (callbacks (m_trace (step m ev))) = (if m_progress (step m ev) = Terminated then 1 else 0)"
proof -
  consider (idle) "step m ev = m"
    | (response) err res now1 now2 where "m_progress m = AwaitTransport"
        "step m ev = advance m (handleResponse (m_state m) err res now1 now2)"
    | (timer_cancelled) "m_progress m = AwaitTimer"
        "step m ev = advance m (m_state m, [], Dropped)"
    | (timer_fired) env where "m_progress m = AwaitTimer"
        "step m ev = advance m (RequestsState_sendRequest (m_state m) env)"
    using step_cases [of m ev] by blast
  then show ?thesis
  proof cases
  case idle
  with assms show ?thesis by simp
next
  case (response err res now1 now2)
  obtain rs' acts p where r: "handleResponse (m_state m) err res now1 now2 = (rs', acts, p)"
    by (cases "handleResponse (m_state m) err res now1 now2") auto
  from handleResponse_cases [OF r] assms show ?thesis
    by (auto simp: response r advance_def callbacks_append)
next
  case timer_cancelled
  with assms show ?thesis by (simp add: advance_def)
next
  case (timer_fired env)
  obtain rs' acts p where r: "RequestsState_sendRequest (m_state m) env = (rs', acts, p)"
    by (cases "RequestsState_sendRequest (m_state m) env") auto
  from RequestsState_sendRequest_cases [OF r] assms show ?thesis
    by (auto simp: timer_fired r advance_def callbacks_append)
  qed
qed

lemma run_callbacks:
  assumes "length (callbacks (m_trace m)) = (if m_progress m = Terminated then 1 else 0)"
  shows "length (callbacks (m_trace (run m evs))) = (if m_progress (run m evs) = Terminated then 1 else 0)"
  using assms
proof (induction evs arbitrary: m)
  case Nil
  then show ?case by (simp add: run_def)
next
  case (Cons ev evs)
  from step_callbacks [OF Cons.prems, of ev] Cons.IH [of "step m ev"]
  show ?case by (simp add: run_def)
qed

lemma sendRequestRetry_callbacks:
  "length (callbacks (m_trace (sendRequestRetry dest type path payload timeout headers rnf now0 env0)))
     = (if m_progress (sendRequestRetry dest type path payload timeout headers rnf now0 env0) = Terminated
        then 1 else 0)"
proof -
  let ?rs = "RequestsState_new dest type path payload timeout headers rnf now0"
  obtain rs' acts p where r: "RequestsState_sendRequest ?rs env0 = (rs', acts, p)"
    by (cases "RequestsState_sendRequest ?rs env0") auto
  have m: "sendRequestRetry dest type path payload timeout headers rnf now0 env0
             = \<lparr> m_state = rs', m_progress = p, m_trace = acts \<rparr>"
    by (simp add: sendRequestRetry_def Let_def r advance_def)
  from RequestsState_sendRequest_cases [OF r] show ?thesis
    unfolding m by auto
qed

lemma callback_at_most_once:
  "length (callbacks (m_trace
      (run (sendRequestRetry dest type path payload timeout headers rnf now0 env0) evs))) \<le> 1"
  using run_callbacks [OF sendRequestRetry_callbacks, of dest type path payload timeout headers rnf now0 env0 evs]
  by (simp split: if_splits)

lemma run_Dropped: "m_progress m = Dropped \<Longrightarrow> run m evs = m"
proof (induction evs)
  case Nil
  then show ?case by (simp add: run_def)
next
  case (Cons ev evs)
  then have "step m ev = m" by (cases ev) (simp_all add: step_def)
  with Cons show ?case by (simp add: run_def)
qed

lemma run_append: "run m (xs @ ys) = run (run m xs) ys"
  by (simp add: run_def)

subsection \<open>Retries are bounded\<close>

lemma div_less_step:
  fixes x y c :: int
  assumes "0 < c" and "x + c \<le> y"
  shows "x div c < y div c"
proof -
  from assms(1) have "c \<noteq> 0" by simp
  then have "(x + c) div c = x div c + 1" by (rule div_add_self2)
  then have "x div c + 1 = (x + c) div c" by simp
  also from assms have "\<dots> \<le> y div c" by (intro zdiv_mono1)
  finally show ?thesis by simp
qed

lemma tryAgainLater_retries_left:
  assumes "tryAgainLater rs err res now1 now2 = (rs', acts, p)" and "lastDue rs \<le> now2"
    and "p = AwaitTimer"
  shows "retries_left rs' < retries_left rs"
proof -
  let ?due = "now2 + clampTryAgainAfter (now1 - rs_startTime rs)"
  from assms have rs': "rs' = rs\<lparr> rs_timer := Some ?due \<rparr>" and lt: "?due < rs_endTime rs"
    by (auto simp: tryAgainLater_def Let_def split: if_splits)
  from clampTryAgainAfter_bounds [of "now1 - rs_startTime rs"] assms(2)
  have ge: "lastDue rs + 200000000 \<le> ?due" by (simp add: milliseconds_def)
  have "(rs_endTime rs - ?due) div 200000000 < (rs_endTime rs - lastDue rs) div 200000000"
    using ge by (intro div_less_step) simp_all
  moreover have "0 \<le> (rs_endTime rs - ?due) div 200000000"
    using lt by (intro pos_imp_zdiv_nonneg_iff [THEN iffD2]) simp_all
  moreover have "lastDue rs' = ?due" by (simp add: rs' lastDue_def)
  moreover have "rs_endTime rs' = rs_endTime rs" by (simp add: rs')
  ultimately show ?thesis
    by (simp add: retries_left_def milliseconds_def)
qed

lemma handleResponse_potential:
  assumes "handleResponse rs err res now1 now2 = (rs', acts, p)" and "lastDue rs \<le> now2"
  shows "p = Terminated \<or> p = AssertFailed \<or> (p = AwaitTimer \<and> retries_left rs' < retries_left rs)"
proof (cases "handleResponse rs err res now1 now2 = tryAgainLater rs err res now1 now2")
  case True
  with assms tryAgainLater_retries_left [of rs err res now1 now2 rs' acts p]
    tryAgainLater_cases [of rs err res now1 now2 rs' acts p]
  show ?thesis by auto
next
  case False
  with assms show ?thesis
    by (auto simp: handleResponse_def split: ErrorCondition.splits option.splits if_splits)
qed

lemma step_potential:
  assumes "expected m ev"
  shows "potential (step m ev) < potential m"
proof (cases ev)
  case (SendCompleted err res now1 now2)
  with assms have a: "m_progress m = AwaitTransport" and b: "lastDue (m_state m) \<le> now2"
    by (simp_all add: expected_def)
  obtain rs' acts p where r: "handleResponse (m_state m) err res now1 now2 = (rs', acts, p)"
    by (cases "handleResponse (m_state m) err res now1 now2") auto
  from handleResponse_potential [OF r b] show ?thesis
    by (auto simp: SendCompleted step_def a r advance_def potential_def)
next
  case (TimerCompleted ec env)
  with assms have a: "m_progress m = AwaitTimer" and b: "\<not> ec"
    by (simp_all add: expected_def)
  obtain rs' acts p where r: "RequestsState_sendRequest (m_state m) env = (rs', acts, p)"
    by (cases "RequestsState_sendRequest (m_state m) env") auto
  from RequestsState_sendRequest_cases [OF r] show ?thesis
    by (auto simp: TimerCompleted step_def a b r advance_def potential_def timerHandler_def)
qed

lemma expected_run_length: "expected_run m evs \<Longrightarrow> length evs \<le> potential m"
proof (induction evs arbitrary: m)
  case Nil
  then show ?case by simp
next
  case (Cons ev evs)
  then have "expected m ev" and "length evs \<le> potential (step m ev)" by simp_all
  with step_potential [of m ev] show ?case by simp
qed

lemma expected_run_not_Dropped:
  "expected_run m evs \<Longrightarrow> m_progress m \<noteq> Dropped \<Longrightarrow> m_progress (run m evs) \<noteq> Dropped"
proof (induction evs arbitrary: m)
  case Nil
  then show ?case by (simp add: run_def)
next
  case (Cons ev evs)
  then have e: "expected m ev" and r: "expected_run (step m ev) evs" by simp_all
  have "m_progress (step m ev) \<noteq> Dropped"
  proof (cases ev)
    case (SendCompleted err res now1 now2)
    obtain rs' acts p where h: "handleResponse (m_state m) err res now1 now2 = (rs', acts, p)"
      by (cases "handleResponse (m_state m) err res now1 now2") auto
    from handleResponse_cases [OF h] e show ?thesis
      by (auto simp: SendCompleted step_def expected_def h advance_def)
  next
    case (TimerCompleted ec env)
    obtain rs' acts p where h: "RequestsState_sendRequest (m_state m) env = (rs', acts, p)"
      by (cases "RequestsState_sendRequest (m_state m) env") auto
    from RequestsState_sendRequest_cases [OF h] e show ?thesis
      by (auto simp: TimerCompleted step_def expected_def h advance_def timerHandler_def)
  qed
  from Cons.IH [OF r this] show ?case by (simp add: run_def)
qed

lemma sendRequestRetry_potential:
  "potential (sendRequestRetry dest type path payload timeout headers rnf now0 env0)
     \<le> 2 * nat (timeout div milliseconds 200) + 2"
proof -
  let ?rs = "RequestsState_new dest type path payload timeout headers rnf now0"
  obtain rs' acts p where r: "RequestsState_sendRequest ?rs env0 = (rs', acts, p)"
    by (cases "RequestsState_sendRequest ?rs env0") auto
  have m: "sendRequestRetry dest type path payload timeout headers rnf now0 env0
             = \<lparr> m_state = rs', m_progress = p, m_trace = acts \<rparr>"
    by (simp add: sendRequestRetry_def Let_def r advance_def)
  have f: "retries_left ?rs = nat (timeout div milliseconds 200)"
    by (simp add: RequestsState_new_def retries_left_def lastDue_def)
  from RequestsState_sendRequest_cases [OF r] f show ?thesis
    unfolding m by (auto simp: potential_def)
qed

lemma retries_bounded:
  assumes "expected_run (sendRequestRetry dest type path payload timeout headers rnf now0 env0) evs"
  shows "length evs \<le> 2 * nat (timeout div milliseconds 200) + 2"
  using expected_run_length [OF assms]
    sendRequestRetry_potential [of dest type path payload timeout headers rnf now0 env0]
  by simp

lemma sendRequestRetry_not_Dropped:
  "m_progress (sendRequestRetry dest type path payload timeout headers rnf now0 env0) \<noteq> Dropped"
proof -
  let ?rs = "RequestsState_new dest type path payload timeout headers rnf now0"
  obtain rs' acts p where r: "RequestsState_sendRequest ?rs env0 = (rs', acts, p)"
    by (cases "RequestsState_sendRequest ?rs env0") auto
  have m: "sendRequestRetry dest type path payload timeout headers rnf now0 env0
             = \<lparr> m_state = rs', m_progress = p, m_trace = acts \<rparr>"
    by (simp add: sendRequestRetry_def Let_def r advance_def)
  from RequestsState_sendRequest_cases [OF r] show ?thesis
    unfolding m by auto
qed

text \<open>Without a cancelled timer and without a failed assertion, a request that is no
  longer waiting has invoked the callback exactly once.\<close>

lemma callback_exactly_once_without_cancellation:
  assumes "expected_run (sendRequestRetry dest type path payload timeout headers rnf now0 env0) evs"
    and "m_progress (run (sendRequestRetry dest type path payload timeout headers rnf now0 env0) evs)
           \<notin> {AwaitTransport, AwaitTimer, AssertFailed}"
  shows "length (callbacks (m_trace
           (run (sendRequestRetry dest type path payload timeout headers rnf now0 env0) evs))) = 1"
proof -
  let ?m = "run (sendRequestRetry dest type path payload timeout headers rnf now0 env0) evs"
  from expected_run_not_Dropped [OF assms(1) sendRequestRetry_not_Dropped]
  have "m_progress ?m \<noteq> Dropped" .
  with assms(2) have "m_progress ?m = Terminated" by (cases "m_progress ?m") simp_all
  with run_callbacks [OF sendRequestRetry_callbacks,
      of dest type path payload timeout headers rnf now0 env0 evs]
  show ?thesis by simp
qed

subsection \<open>Evaluation of examples\<close>

lemmas eval_defs =
  run_def step_def advance_def timerHandler_def handleResponse_def tryAgainLater_def
  clampTryAgainAfter_def RequestsState_sendRequest_def prepareRequest_def forward_buffer_def
  sendRequestRetry_def RequestsState_new_def duration_cast_ms_def milliseconds_def seconds_def
  Let_def status_defs TRI_ERROR_ARANGO_DATA_SOURCE_NOT_FOUND_def
  example_state_def example_env_def example_response_def example_retry_def

subsection \<open>Classification of a completion and backoff\<close>

text \<open>
  Claim C3. For every completion that is classified retryable (a connection failure, a
  transport timeout, or the not-found answer that is to be retried): the backoff delay
  is the time elapsed since the start, clamped to the closed interval from 200 ms to
  10 s; the due time is the clock reading plus that delay; when the due time is at or
  after the deadline, the callback is invoked with the error and response of that
  attempt unchanged; otherwise the timer is armed for the due time, and when it fires
  \<^verbatim>\<open>sendRequest\<close> runs again from its top.
\<close>

theorem retryable_completion_backoff:
  assumes "err = CouldNotConnect \<or> err = Timeout \<or>
           (err = NoError \<and> (\<exists>r. res = Some r \<and> statusCode r = StatusNotFound \<and>
               rs_retryOnCollNotFound rs \<and>
               bodyErrorCode r = TRI_ERROR_ARANGO_DATA_SOURCE_NOT_FOUND))"
  shows "(let delay = max (milliseconds 200) (min (seconds 10) (now1 - rs_startTime rs));
              dueTime = now2 + delay
          in milliseconds 200 \<le> delay \<and> delay \<le> seconds 10 \<and>
             handleResponse rs err res now1 now2 =
               (if dueTime \<ge> rs_endTime rs
                then (rs, [Callback \<lparr> destination = rs_destination rs, error = err,
                                      response = res \<rparr>], Terminated)
                else (rs\<lparr> rs_timer := Some dueTime \<rparr>, [ArmTimer dueTime], AwaitTimer)) \<and>
             timerHandler (rs\<lparr> rs_timer := Some dueTime \<rparr>) False env =
               RequestsState_sendRequest (rs\<lparr> rs_timer := Some dueTime \<rparr>) env)"
proof -
  have fall: "handleResponse rs err res now1 now2 = tryAgainLater rs err res now1 now2"
    using assms by (auto simp: handleResponse_def status_defs)
  show ?thesis
    unfolding fall Let_def
    using clampTryAgainAfter_bounds [of "now1 - rs_startTime rs"]
    by (simp add: tryAgainLater_def Let_def timerHandler_def clampTryAgainAfter_max_min)
qed

text \<open>
  Claim C4. For every completion without a transport error: a response with status OK,
  Created, Accepted or No-Content ends the request with \<open>NoError\<close> and that response; a
  Not-Found response whose body carries the data-source-not-found error number, when
  the retry-on-not-found flag is set, goes on to the backoff; every other response ends
  the request at once, and the callback receives the response.
\<close>

theorem no_transport_error_classification:
  assumes "res = Some r"
  shows "(statusCode r = StatusOK \<or> statusCode r = StatusCreated \<or>
          statusCode r = StatusAccepted \<or> statusCode r = StatusNoContent \<longrightarrow>
            handleResponse rs NoError res now1 now2 =
              (rs, [Callback \<lparr> destination = rs_destination rs, error = NoError,
                                response = Some r \<rparr>], Terminated))
       \<and> (statusCode r = StatusNotFound \<and> rs_retryOnCollNotFound rs \<and>
          bodyErrorCode r = TRI_ERROR_ARANGO_DATA_SOURCE_NOT_FOUND \<longrightarrow>
            handleResponse rs NoError res now1 now2 = tryAgainLater rs NoError res now1 now2)
       \<and> (\<not> (statusCode r = StatusOK \<or> statusCode r = StatusCreated \<or>
              statusCode r = StatusAccepted \<or> statusCode r = StatusNoContent) \<and>
          \<not> (statusCode r = StatusNotFound \<and> rs_retryOnCollNotFound rs \<and>
              bodyErrorCode r = TRI_ERROR_ARANGO_DATA_SOURCE_NOT_FOUND) \<longrightarrow>
            handleResponse rs NoError res now1 now2 =
              (rs, [Callback \<lparr> destination = rs_destination rs, error = Canceled,
                                response = Some r \<rparr>], Terminated))"
  using assms by (auto simp: handleResponse_def status_defs)

theorem retryable_completion_backoff_witness:
  "handleResponse example_state CouldNotConnect None (milliseconds 50) (milliseconds 51) =
     (example_state\<lparr> rs_timer := Some (milliseconds 251) \<rparr>, [ArmTimer (milliseconds 251)],
      AwaitTimer)
   \<and> handleResponse example_state NoError (Some (example_response 404 1203))
       (seconds 9) (seconds 9) =
     (example_state,
      [Callback \<lparr> destination = ''PRMR-1'', error = NoError,
                  response = Some (example_response 404 1203) \<rparr>],
      Terminated)"
  using retryable_completion_backoff
     [where err = CouldNotConnect and res = None and rs = example_state
        and ?now1.0 = "milliseconds 50" and ?now2.0 = "milliseconds 51"]
    retryable_completion_backoff
     [where err = NoError and res = "Some (example_response 404 1203)" and rs = example_state
        and ?now1.0 = "seconds 9" and ?now2.0 = "seconds 9"]
  by (simp add: example_state_def example_response_def RequestsState_new_def milliseconds_def
        seconds_def Let_def status_defs TRI_ERROR_ARANGO_DATA_SOURCE_NOT_FOUND_def)

theorem no_transport_error_classification_witness:
  "handleResponse example_state NoError (Some (example_response 201 0)) 5 6 =
     (example_state,
      [Callback \<lparr> destination = ''PRMR-1'', error = NoError,
                  response = Some (example_response 201 0) \<rparr>],
      Terminated)
   \<and> handleResponse example_state NoError (Some (example_response 404 1203)) 5 6 =
     (example_state\<lparr> rs_timer := Some (6 + milliseconds 200) \<rparr>,
      [ArmTimer (6 + milliseconds 200)], AwaitTimer)
   \<and> handleResponse example_state NoError (Some (example_response 500 0)) 5 6 =
     (example_state,
      [Callback \<lparr> destination = ''PRMR-1'', error = Canceled,
                  response = Some (example_response 500 0) \<rparr>],
      Terminated)"
  using no_transport_error_classification
     [where res = "Some (example_response 201 0)" and r = "example_response 201 0"
        and rs = example_state and ?now1.0 = 5 and ?now2.0 = 6]
    no_transport_error_classification
     [where res = "Some (example_response 404 1203)" and r = "example_response 404 1203"
        and rs = example_state and ?now1.0 = 5 and ?now2.0 = 6]
    no_transport_error_classification
     [where res = "Some (example_response 500 0)" and r = "example_response 500 0"
        and rs = example_state and ?now1.0 = 5 and ?now2.0 = 6]
  by (simp add: example_state_def example_response_def RequestsState_new_def status_defs
        TRI_ERROR_ARANGO_DATA_SOURCE_NOT_FOUND_def tryAgainLater_def clampTryAgainAfter_def
        milliseconds_def seconds_def Let_def)

text \<open>
  Claim C5, as amended. The timer is armed only when the computed due time is strictly
  before the deadline. In every other case of a retryable completion the request ends at
  once and the callback receives the error code and the response of that attempt
  unchanged; it is a \<open>Timeout\<close> only when the transport itself reported one.
\<close>

theorem timer_armed_only_before_deadline:
  assumes "handleResponse rs err res now1 now2 = (rs', acts, p)"
  shows "(let dueTime = now2 + clampTryAgainAfter (now1 - rs_startTime rs)
          in (timers acts \<noteq> [] \<longrightarrow>
                acts = [ArmTimer dueTime] \<and> p = AwaitTimer \<and> dueTime < rs_endTime rs)
           \<and> ((err = CouldNotConnect \<or> err = Timeout \<or>
                (err = NoError \<and> (\<exists>r. res = Some r \<and> statusCode r = StatusNotFound \<and>
                   rs_retryOnCollNotFound rs \<and>
                   bodyErrorCode r = TRI_ERROR_ARANGO_DATA_SOURCE_NOT_FOUND)))
               \<and> \<not> dueTime < rs_endTime rs \<longrightarrow>
                acts = [Callback \<lparr> destination = rs_destination rs, error = err,
                                    response = res \<rparr>] \<and> p = Terminated))"
proof (cases "handleResponse rs err res now1 now2 = tryAgainLater rs err res now1 now2")
  case True
  with assms timers_tryAgainLater [of rs err res now1 now2 rs' acts p] show ?thesis
    by (auto simp: Let_def)
next
  case False
  with assms show ?thesis
    by (auto simp: handleResponse_def Let_def status_defs
          split: ErrorCondition.splits option.splits if_splits)
qed

theorem timer_armed_only_before_deadline_witness:
  "handleResponse example_state CouldNotConnect None (milliseconds 50) (milliseconds 51) =
     (example_state\<lparr> rs_timer := Some (milliseconds 251) \<rparr>, [ArmTimer (milliseconds 251)],
      AwaitTimer)
   \<and> milliseconds 251 < rs_endTime example_state
   \<and> handleResponse example_state NoError (Some (example_response 404 1203))
       (seconds 9) (seconds 9) =
     (example_state,
      [Callback \<lparr> destination = ''PRMR-1'', error = NoError,
                  response = Some (example_response 404 1203) \<rparr>],
      Terminated)"
  using timer_armed_only_before_deadline
     [where rs = example_state and err = CouldNotConnect and res = None
        and ?now1.0 = "milliseconds 50" and ?now2.0 = "milliseconds 51"
        and rs' = "example_state\<lparr> rs_timer := Some (milliseconds 251) \<rparr>"
        and acts = "[ArmTimer (milliseconds 251)]" and p = AwaitTimer]
    timer_armed_only_before_deadline
     [where rs = example_state and err = NoError and res = "Some (example_response 404 1203)"
        and ?now1.0 = "seconds 9" and ?now2.0 = "seconds 9" and rs' = example_state
        and acts = "[Callback \<lparr> destination = ''PRMR-1'', error = NoError,
                  response = Some (example_response 404 1203) \<rparr>]" and p = Terminated]
  by (simp add: eval_defs)

text \<open>
  Claim C5 as it is written fails: a connection failure nine seconds into a request of
  ten seconds has its due time past the deadline, and the callback receives
  \<open>CouldNotConnect\<close>, not \<open>Timeout\<close>.
\<close>

theorem backoff_past_deadline_counterexample:
  "handleResponse example_state CouldNotConnect None (seconds 9) (seconds 9) =
     (example_state,
      [Callback \<lparr> destination = ''PRMR-1'', error = CouldNotConnect, response = None \<rparr>],
      Terminated)
   \<and> CouldNotConnect \<noteq> Timeout"
  by (simp add: eval_defs)

subsection \<open>The checks at the top of an attempt\<close>

text \<open>
  Claim C6. When the clock reading at the top of an attempt is past the deadline, the
  attempt invokes the callback with \<open>Timeout\<close> and does nothing else: it resolves no
  destination, leases no connection and sends nothing. This holds for the first attempt
  of \<^verbatim>\<open>sendRequestRetry\<close> too, when the deadline has passed before it starts.
\<close>

theorem deadline_passed_no_io:
  "(env_now env > rs_endTime rs \<longrightarrow>
      RequestsState_sendRequest rs env =
        (rs, [Callback \<lparr> destination = rs_destination rs, error = Timeout, response = None \<rparr>],
         Terminated)
      \<and> resolves (fst (snd (RequestsState_sendRequest rs env))) = []
      \<and> leases (fst (snd (RequestsState_sendRequest rs env))) = []
      \<and> sends (fst (snd (RequestsState_sendRequest rs env))) = [])
   \<and> (env_now env0 > now0 + timeout \<longrightarrow>
        m_trace (sendRequestRetry dest type path payload timeout headers retryNotFound now0 env0)
          = [Callback \<lparr> destination = dest, error = Timeout, response = None \<rparr>]
      \<and> m_progress (sendRequestRetry dest type path payload timeout headers retryNotFound now0 env0)
          = Terminated)"
  by (simp add: RequestsState_sendRequest_def sendRequestRetry_def RequestsState_new_def
        advance_def Let_def)

theorem deadline_passed_no_io_witness:
  "RequestsState_sendRequest example_state (example_env (seconds 11) (Some 1)) =
     (example_state,
      [Callback \<lparr> destination = ''PRMR-1'', error = Timeout, response = None \<rparr>], Terminated)
   \<and> m_trace (sendRequestRetry ''PRMR-1'' VerbGet ''/_api/version'' [1, 2, 3] (milliseconds 1) []
               False 0 (example_env (milliseconds 2) (Some 1)))
       = [Callback \<lparr> destination = ''PRMR-1'', error = Timeout, response = None \<rparr>]"
  using deadline_passed_no_io
     [where rs = example_state and env = "example_env (seconds 11) (Some 1)" and ?now0.0 = 0
        and timeout = "milliseconds 1" and ?env0.0 = "example_env (milliseconds 2) (Some 1)"
        and dest = "''PRMR-1''" and type = VerbGet and path = "''/_api/version''"
        and payload = "[1, 2, 3]" and headers = "[]" and retryNotFound = False]
  by (simp add: eval_defs)

text \<open>
  Claim C7. When an attempt reaches the pool check and the published pool pointer is
  null, the callback is invoked with \<open>Canceled\<close> and no connection is leased.
  \<^verbatim>\<open>beginShutdown\<close> stores the null pointer first and shuts the pool down second: the
  store touches no pool object, the teardown leaves the pointer as it is and does shut
  down the pool the feature owns, and the pointer is null in every state from the store
  on. So, of the states a dispatch can observe while \<^verbatim>\<open>beginShutdown\<close> runs (before it,
  between its two statements, after it), none publishes a pool that has been shut down,
  provided the state before did not; and a dispatch that reads the pointer in a state
  after the store ends with \<open>Canceled\<close>. (Statements of one thread and reads of another
  are interleaved here; the memory-ordering arguments of the atomic accesses are not
  part of the model.)
\<close>

theorem pool_torn_down_canceled:
  "(\<not> env_now env > rs_endTime rs \<and> \<not> env_isStopping env \<and> env_endpoint env = Some ep \<and>
    (env_pool env = None \<or> env_pool env = NetworkFeature_pool (beginShutdown_publish nf) \<or>
     env_pool env = NetworkFeature_pool (beginShutdown nf)) \<longrightarrow>
      RequestsState_sendRequest rs env =
        (rs, [Resolve (rs_destination rs),
              Callback \<lparr> destination = rs_destination rs, error = Canceled, response = None \<rparr>],
         Terminated)
      \<and> leases (fst (snd (RequestsState_sendRequest rs env))) = []
      \<and> sends (fst (snd (RequestsState_sendRequest rs env))) = [])
   \<and> NetworkFeature_pool (beginShutdown_publish nf) = None
   \<and> pools (beginShutdown_publish nf) = pools nf
   \<and> NetworkFeature_pool (beginShutdown_teardown nf') = NetworkFeature_pool nf'
   \<and> NetworkFeature_pool (beginShutdown nf) = None
   \<and> last (beginShutdown_states nf) = beginShutdown nf
   \<and> (\<not> leasesShutdownPool nf \<longrightarrow>
        (\<forall>s \<in> set (beginShutdown_states nf). \<not> leasesShutdownPool s))
   \<and> (\<forall>s \<in> set (tl (beginShutdown_states nf)). NetworkFeature_pool s = None)
   \<and> (pool_owner nf = Some a \<and> pools nf a = Some p \<longrightarrow>
        pools (beginShutdown nf) a = Some (p\<lparr> isShutdown := True \<rparr>))"
  by (auto simp: RequestsState_sendRequest_def NetworkFeature_pool_def beginShutdown_def
        beginShutdown_publish_def beginShutdown_teardown_def beginShutdown_states_def
        leasesShutdownPool_def split: option.splits)

theorem pool_torn_down_canceled_witness:
  "RequestsState_sendRequest example_state
     (example_env (milliseconds 1)
        (NetworkFeature_pool (beginShutdown (prepare 1 (validateOptions NetworkFeature_init))))) =
     (example_state,
      [Resolve ''PRMR-1'',
       Callback \<lparr> destination = ''PRMR-1'', error = Canceled, response = None \<rparr>],
      Terminated)
   \<and> NetworkFeature_pool (prepare 1 (validateOptions NetworkFeature_init)) = Some 1
   \<and> NetworkFeature_pool (beginShutdown (prepare 1 (validateOptions NetworkFeature_init))) = None
   \<and> \<not> leasesShutdownPool (prepare 1 (validateOptions NetworkFeature_init))
   \<and> map leasesShutdownPool (beginShutdown_states (prepare 1 (validateOptions NetworkFeature_init)))
       = [False, False, False]
   \<and> map NetworkFeature_pool (beginShutdown_states (prepare 1 (validateOptions NetworkFeature_init)))
       = [Some 1, None, None]
   \<and> map_option isShutdown
        (pools (beginShutdown (prepare 1 (validateOptions NetworkFeature_init))) 1) = Some True"
  using pool_torn_down_canceled
     [where env = "example_env (milliseconds 1)
            (NetworkFeature_pool (beginShutdown (prepare 1 (validateOptions NetworkFeature_init))))"
        and rs = example_state and ep = "''tcp://10.0.0.1:8529''"
        and nf = "prepare 1 (validateOptions NetworkFeature_init)"
        and nf' = NetworkFeature_init and a = 1
        and p = "\<lparr> config = \<lparr> cfg_numIOThreads = 1, cfg_maxOpenConnections = 128,
                cfg_connectionTtlMilli = 300000, cfg_verifyHosts = False \<rparr>,
              isShutdown = False \<rparr>"]
  by (simp add: eval_defs NetworkFeature_pool_def beginShutdown_def beginShutdown_publish_def
        beginShutdown_teardown_def prepare_def validateOptions_def NetworkFeature_init_def
        beginShutdown_states_def leasesShutdownPool_def)

text \<open>The order of the two statements matters: had the pool been shut down before the
  null pointer was stored, the state between the two statements would publish a pool
  that is shut down.\<close>

lemma teardown_before_publish_leases_shutdown_pool:
  "leasesShutdownPool (beginShutdown_teardown (prepare 1 (validateOptions NetworkFeature_init)))
   \<and> \<not> leasesShutdownPool (prepare 1 (validateOptions NetworkFeature_init))"
  by (simp add: leasesShutdownPool_def NetworkFeature_pool_def beginShutdown_teardown_def
        prepare_def validateOptions_def NetworkFeature_init_def Let_def)

subsection \<open>What the transport is handed\<close>

text \<open>
  Claim C8. Every request that a retrying send hands to the transport, on whichever
  attempt, carries exactly the payload bytes the caller passed in, and the stored
  payload still holds those bytes after any sequence of events: no attempt changes it or
  moves out of it.
\<close>

theorem payload_identical_on_every_attempt:
  "rs_payload (m_state (run (sendRequestRetry dest type path payload timeout headers rnf now0 env0) evs))
     = payload
   \<and> (\<forall>q \<in> set (sends (m_trace
          (run (sendRequestRetry dest type path payload timeout headers rnf now0 env0) evs))).
        req_payload q = payload)"
  using sendRequestRetry_sends [of dest type path payload timeout headers rnf now0 env0]
    run_sends [of "sendRequestRetry dest type path payload timeout headers rnf now0 env0"
                 payload timeout evs]
  by blast

theorem payload_identical_on_every_attempt_witness:
  "map req_payload (sends (m_trace (run example_retry
      [SendCompleted CouldNotConnect None (seconds 4) (seconds 4),
       TimerCompleted False (example_env (seconds 8) (Some 1))]))) = [ [1, 2, 3], [1, 2, 3] ]"
  using payload_identical_on_every_attempt
     [where dest = "''PRMR-1''" and type = VerbGet and path = "''/_api/version''"
        and payload = "[1, 2, 3]" and timeout = "seconds 10" and headers = "[]" and rnf = True
        and ?now0.0 = 0 and ?env0.0 = "example_env (milliseconds 1) (Some 1)"
        and evs = "[SendCompleted CouldNotConnect None (seconds 4) (seconds 4),
           TimerCompleted False (example_env (seconds 8) (Some 1))]"]
  by (simp add: eval_defs)

text \<open>
  Claim C2, evaluated where it fails. The example request has a budget of ten seconds.
  Its first attempt starts after one millisecond and its second after eight seconds, so
  the remaining budgets are 9999 ms and 2000 ms; both requests are handed to the
  transport with a timeout of 10000 ms, the total.
\<close>

theorem retry_wire_timeout_is_total_timeout:
  "map req_timeout_ms (sends (m_trace (run example_retry
      [SendCompleted CouldNotConnect None (seconds 4) (seconds 4),
       TimerCompleted False (example_env (seconds 8) (Some 1))]))) = [10000, 10000]
   \<and> duration_cast_ms (rs_endTime (m_state example_retry) - milliseconds 1) = 9999
   \<and> duration_cast_ms (rs_endTime (m_state example_retry) - seconds 8) = 2000"
  by (simp add: eval_defs)

subsection \<open>The single attempt\<close>

text \<open>
  Claim C10. When the pool is available and the destination resolves, the single-attempt
  \<^verbatim>\<open>sendRequest\<close> hands one request to the transport, arms no timer, and fulfils its
  future with the error code and the response the transport delivers, both unchanged,
  whatever the status of the response is.
\<close>

theorem sendRequest_delivers_transport_result:
  assumes "pool = Some p" and "endpoint = Some ep" and "ep \<noteq> []"
  shows "sendRequest dest type path payload timeout headers pool endpoint
           = Some ([Resolve dest, Lease p ep,
                    Send \<lparr> req_type = type, req_path = path, req_payload = payload,
                           req_timeout_ms = duration_cast_ms timeout, req_headers = headers \<rparr>],
                   FuturePending)
       \<and> sendRequest_result dest type path payload timeout headers pool endpoint err res
           = Some \<lparr> destination = dest, error = err, response = res \<rparr>"
  using assms
  by (simp add: sendRequest_result_def sendRequest_def sendRequest_completion_def
        prepareRequest_def forward_buffer_def)

theorem sendRequest_delivers_transport_result_witness:
  "sendRequest_result ''PRMR-1'' VerbGet ''/_api/version'' [1, 2, 3] (seconds 10) []
      (Some 1) (Some ''tcp://10.0.0.1:8529'') NoError (Some (example_response 500 0))
     = Some \<lparr> destination = ''PRMR-1'', error = NoError,
              response = Some (example_response 500 0) \<rparr>"
  using sendRequest_delivers_transport_result
     [where pool = "Some 1" and p = 1 and endpoint = "Some ''tcp://10.0.0.1:8529''"
        and ep = "''tcp://10.0.0.1:8529''" and dest = "''PRMR-1''" and type = VerbGet
        and path = "''/_api/version''" and payload = "[1, 2, 3]" and timeout = "seconds 10"
        and headers = "[]" and err = NoError and res = "Some (example_response 500 0)"]
  by simp

subsection \<open>Invocations of the callback\<close>

text \<open>
  Claim C1, evaluated where it fails. The first attempt of the example request ends with
  a connection failure after four seconds and the timer is armed. When the timer's wait
  then ends with an error code, its handler returns without calling \<^verbatim>\<open>sendRequest\<close>:
  nothing is outstanding any more, and whatever events follow, the callback is never
  invoked.
\<close>

theorem timer_cancelled_callback_never_invoked:
  "callbacks (m_trace (run example_retry
      ([SendCompleted CouldNotConnect None (seconds 4) (seconds 4), TimerCompleted True env]
        @ evs))) = []
   \<and> m_progress (run example_retry
      ([SendCompleted CouldNotConnect None (seconds 4) (seconds 4), TimerCompleted True env]
        @ evs)) = Dropped"
proof -
  let ?m = "run example_retry
      [SendCompleted CouldNotConnect None (seconds 4) (seconds 4), TimerCompleted True env]"
  have p: "m_progress ?m = Dropped" and c: "callbacks (m_trace ?m) = []"
    by (simp_all add: eval_defs)
  have "run example_retry
      ([SendCompleted CouldNotConnect None (seconds 4) (seconds 4), TimerCompleted True env]
        @ evs) = run ?m evs"
    by (rule run_append)
  also have "\<dots> = ?m" by (rule run_Dropped [OF p])
  finally show ?thesis using p c by simp
qed

subsection \<open>Option validation\<close>

text \<open>
  Claim C9. For every configured IO thread count \<open>n\<close>, the value stored by
  \<^verbatim>\<open>validateOptions\<close> is \<open>min 1 (max 8 n)\<close>, and that expression is the constant 1
  whatever \<open>n\<close> is.
\<close>

theorem validateOptions_numIOThreads_constant:
  "numIOThreads (validateOptions nf) = min 1 (max 8 (numIOThreads nf))
   \<and> min 1 (max 8 (numIOThreads nf)) = (1 :: uint64)"
proof -
  have stored: "numIOThreads (validateOptions nf) = min 1 (max 8 (numIOThreads nf))"
    by (simp add: validateOptions_def Let_def)
  have "(1 :: uint64) \<le> 8" by simp
  also have "(8 :: uint64) \<le> max 8 (numIOThreads nf)" by simp
  finally have "min 1 (max 8 (numIOThreads nf)) = (1 :: uint64)"
    by (simp add: min_def)
  with stored show ?thesis by simp
qed

end
